theory Spec2Isabelle
  imports Main
begin

section \<open>Python values used by the ETL project\<close>

text \<open>
  A Python \<open>str\<close> is a sequence of code points. Every string literal of
  \<^verbatim>\<open>etl/ops/etl.py\<close>, \<^verbatim>\<open>etl/jobs/run_etl.py\<close> and
  \<^verbatim>\<open>etl/schedules/etl_job_schedule.py\<close> only has code points below 256, so a
  \<open>string\<close> whose characters carry the code point models it: \<open>CHR 0xE9\<close> is
  e with acute accent, \<open>CHR 0xE2\<close> a with circumflex, \<open>CHR 0xE0\<close> a with grave
  accent, \<open>CHR 0xE8\<close> e with grave accent. The backslash that the source writes
  \<^verbatim>\<open>\\\<close> inside a literal is \<open>bsl\<close>.
\<close>

definition bsl :: string where
  "bsl = [CHR 0x5C]"

text \<open>
  \<^verbatim>\<open>str(i)\<close> of an integer, as an f-string renders \<^verbatim>\<open>{i}\<close>: the decimal
  digits, after a minus sign for a negative number.
\<close>

definition digit_char :: "nat \<Rightarrow> char" where
  "digit_char d = ''0123456789'' ! d"

function str_nat :: "nat \<Rightarrow> string" where
  "str_nat n = (if n < 10 then [digit_char n] else str_nat (n div 10) @ [digit_char (n mod 10)])"
  by pat_completeness auto
termination
  by (relation "measure id") auto

declare str_nat.simps [simp del]

definition str_int :: "int \<Rightarrow> string" where
  "str_int i = (if i < 0 then CHR ''-'' # str_nat (nat (- i)) else str_nat (nat i))"

text \<open>\<^verbatim>\<open>enumerate(xs, start)\<close>: the elements of \<open>xs\<close> numbered from \<open>start\<close>.\<close>

fun enumerate_from :: "int \<Rightarrow> 'a list \<Rightarrow> (int \<times> 'a) list" where
  "enumerate_from start [] = []"
| "enumerate_from start (x # xs) = (start, x) # enumerate_from (start + 1) xs"

text \<open>
  An exception object: whether its class derives from \<open>Exception\<close> (the classes
  \<open>KeyboardInterrupt\<close>, \<open>SystemExit\<close> and the orchestrator's interrupt derive
  from \<open>BaseException\<close> only), the class name, and \<^verbatim>\<open>str(e)\<close>.
\<close>

datatype exn = Exn (is_Exception: bool) (exn_type: string) (exn_str: string)

subsection \<open>Data frames, tables and library calls\<close>

record dataframe =
  df_index :: "string list"
  df_columns :: "string list"
  df_rows :: "string list list"

record sql_table =
  tbl_columns :: "string list"
  tbl_rows :: "string list list"

datatype if_exists = Fail | Replace | Append

datatype engine = Engine (engine_url: string)

datatype "output" = Output (out_value: string) (output_name: string)

text \<open>The library routines an op can call, with the arguments of the call.\<close>

datatype libcall =
    CreateEngine string
  | EngineConnect string
  | ReadCsv string string
  | ReadSql string string
  | ToSql dataframe string string if_exists bool
  | ConnClose nat

fun call_name :: "libcall \<Rightarrow> string" where
  "call_name (CreateEngine _) = ''create_engine''"
| "call_name (EngineConnect _) = ''connect''"
| "call_name (ReadCsv _ _) = ''read_csv''"
| "call_name (ReadSql _ _) = ''read_sql''"
| "call_name (ToSql _ _ _ _ _) = ''to_sql''"
| "call_name (ConnClose _) = ''close''"

text \<open>
  What a run leaves behind, in order: the log lines written through
  \<^verbatim>\<open>context.log\<close>, the outputs a generator op yields, and the library calls.
\<close>

datatype event =
    LogInfo string
  | LogError string
  | Yield "output"
  | Call libcall

fun yields :: "event list \<Rightarrow> output list" where
  "yields [] = []"
| "yields (Yield y # evs) = y # yields evs"
| "yields (_ # evs) = yields evs"

fun calls :: "event list \<Rightarrow> libcall list" where
  "calls [] = []"
| "calls (Call c # evs) = c # calls evs"
| "calls (_ # evs) = calls evs"

fun error_logs :: "event list \<Rightarrow> string list" where
  "error_logs [] = []"
| "error_logs (LogError m # evs) = m # error_logs evs"
| "error_logs (_ # evs) = error_logs evs"

text \<open>
  The world an op runs in: the tables of the database, the connections opened so far
  (\<open>True\<close> while open; a connection is named by its position), and the trace.
\<close>

record world =
  tables :: "string \<rightharpoonup> sql_table"
  conns :: "bool list"
  trace :: "event list"

text \<open>
  What lies outside the program and decides whether a library call raises: the files on
  disk as \<^verbatim>\<open>pandas.read_csv\<close> parses them, and the faults of the database
  driver. \<open>read_sql_result\<close> is what \<^verbatim>\<open>pandas.read_sql\<close> returns for a query
  and a connection target.
\<close>

record env =
  create_engine_fault :: "string \<Rightarrow> exn option"
  connect_fault :: "string \<Rightarrow> exn option"
  read_csv_result :: "string \<Rightarrow> string \<Rightarrow> exn + dataframe"
  read_sql_result :: "string \<Rightarrow> string \<Rightarrow> exn + dataframe"
  to_sql_fault :: "string \<Rightarrow> exn option"
  close_fault :: "exn option"

subsection \<open>Computations that may raise\<close>

type_synonym 'a m = "world \<Rightarrow> (exn + 'a) \<times> world"

definition return_m :: "'a \<Rightarrow> 'a m" where
  "return_m v = (\<lambda>s. (Inr v, s))"

definition raise_m :: "exn \<Rightarrow> 'a m" where
  "raise_m e = (\<lambda>s. (Inl e, s))"

definition bind_m :: "'a m \<Rightarrow> ('a \<Rightarrow> 'b m) \<Rightarrow> 'b m" where
  "bind_m f g = (\<lambda>s. case f s of (Inl e, s') \<Rightarrow> (Inl e, s') | (Inr v, s') \<Rightarrow> g v s')"

definition emit :: "event \<Rightarrow> unit m" where
  "emit ev = (\<lambda>s. (Inr (), s\<lparr>trace := trace s @ [ev]\<rparr>))"

definition log_info :: "string \<Rightarrow> unit m" where
  "log_info msg = emit (LogInfo msg)"

definition log_error :: "string \<Rightarrow> unit m" where
  "log_error msg = emit (LogError msg)"

definition yield :: "output \<Rightarrow> unit m" where
  "yield y = emit (Yield y)"

text \<open>
  \<^verbatim>\<open>try: body  except Exception as e: handler\<close>. The clause catches the
  instances of \<open>Exception\<close> only; any other exception leaves the statement as it is.
\<close>

definition try_except_Exception :: "'a m \<Rightarrow> (exn \<Rightarrow> 'a m) \<Rightarrow> 'a m" where
  "try_except_Exception body handler =
     (\<lambda>s. case body s of
        (Inr v, s') \<Rightarrow> (Inr v, s')
      | (Inl e, s') \<Rightarrow> if is_Exception e then handler e s' else (Inl e, s'))"

text \<open>A \<^verbatim>\<open>for\<close> loop over a list; an exception in the body ends it.\<close>

fun for_each :: "'a list \<Rightarrow> ('a \<Rightarrow> unit m) \<Rightarrow> unit m" where
  "for_each [] body = return_m ()"
| "for_each (x # xs) body = bind_m (body x) (\<lambda>_. for_each xs body)"

text \<open>The events a computation adds to the trace of the world it starts in.\<close>

definition new_events :: "world \<Rightarrow> world \<Rightarrow> event list" where
  "new_events s s' = drop (length (trace s)) (trace s')"

section \<open>The op \<open>extract_dim_product_category\<close>\<close>

text \<open>The names of the \<^verbatim>\<open>out\<close> dictionary of the decorator, in its order.\<close>

definition extract_out :: "string list" where
  "extract_out =
    [''file_path_1'', ''table_name_1'',
     ''file_path_2'', ''table_name_2'',
     ''file_path_3'', ''table_name_3'',
     ''file_path_4'', ''table_name_4'',
     ''file_path_5'', ''table_name_5'',
     ''file_path_6'', ''table_name_6'',
     ''file_path_7'', ''table_name_7'',
     ''file_path_8'', ''table_name_8'',
     ''file_path_9'', ''table_name_9'',
     ''file_path_10'', ''table_name_10'',
     ''file_path_11'', ''table_name_11'']"

text \<open>
  The list \<^verbatim>\<open>files_to_load\<close>. In the third literal the source writes three
  backslashes before \<^verbatim>\<open>Effectif\<close>: an escaped backslash, then \<^verbatim>\<open>\E\<close>,
  which is no escape sequence and stays a backslash followed by \<open>E\<close>.
\<close>

definition files_to_load :: "(string \<times> string) list" where
  "files_to_load =
    [(''C:'' @ bsl @ ''Users'' @ bsl @ ''hp'' @ bsl @ ''Desktop'' @ bsl @ ''health'' @ bsl @ ''data'' @ bsl
        @ ''Suicide deaths.csv'',
      ''Suicide_deaths''),
     (''C:'' @ bsl @ ''Users'' @ bsl @ ''hp'' @ bsl @ ''Desktop'' @ bsl @ ''health'' @ bsl @ ''data'' @ bsl
        @ ''calcule.csv'',
      ''calcule''),
     (''C:'' @ bsl @ ''Users'' @ bsl @ ''hp'' @ bsl @ ''Desktop'' @ bsl @ ''health'' @ bsl @ ''data'' @ bsl
        @ bsl @ ''Effectif des assur'' @ [CHR 0xE9] @ ''s actifs par Tranche d'' @ [CHR 0x27, CHR 0xE2]
        @ ''ge.csv'',
      ''Effectif_des_assures_actifs''),
     (''C:'' @ bsl @ ''Users'' @ bsl @ ''hp'' @ bsl @ ''Desktop'' @ bsl @ ''health'' @ bsl @ ''data'' @ bsl
        @ ''Health in Morocco_wikipedia.csv'',
      ''Health_in_Morocco_wikipedia''),
     (''C:'' @ bsl @ ''Users'' @ bsl @ ''hp'' @ bsl @ ''Desktop'' @ bsl @ ''health'' @ bsl @ ''data'' @ bsl
        @ ''Indicateurs sur les d'' @ [CHR 0xE9] @ ''clarations de salaires CNSS effectu'' @ [CHR 0xE9]
        @ ''es au titre de l'' @ [CHR 0x27] @ ''ann'' @ [CHR 0xE9] @ ''e 2020 ( cnss).csv'',
      ''Indicateurs_sur_les_declarations''),
     (''C:'' @ bsl @ ''Users'' @ bsl @ ''hp'' @ bsl @ ''Desktop'' @ bsl @ ''health'' @ bsl @ ''data'' @ bsl
        @ ''indicateur-sur-la-repartition-des-affilies-par-region.csv'',
      ''indicateur_sur_la_repartition_des_affilies''),
     (''C:'' @ bsl @ ''Users'' @ bsl @ ''hp'' @ bsl @ ''Desktop'' @ bsl @ ''health'' @ bsl @ ''data'' @ bsl
        @ ''indicateur-sur-la-repartition-des-affilies-par-secteur-dactivite cnss.csv'',
      ''indicateur_sur_la_repartition_des_secteur''),
     (''C:'' @ bsl @ ''Users'' @ bsl @ ''hp'' @ bsl @ ''Desktop'' @ bsl @ ''health'' @ bsl @ ''data'' @ bsl
        @ ''indic-soc-sante-mef-2014-3 MEF.csv'',
      ''indic_soc_sante_mef_2014_3_MEF''),
     (''C:'' @ bsl @ ''Users'' @ bsl @ ''hp'' @ bsl @ ''Desktop'' @ bsl @ ''health'' @ bsl @ ''data'' @ bsl
        @ ''infrastructures-privees-2022.csv'',
      ''infrastructures_privees''),
     (''C:'' @ bsl @ ''Users'' @ bsl @ ''hp'' @ bsl @ ''Desktop'' @ bsl @ ''health'' @ bsl @ ''data'' @ bsl
        @ ''offre-de-soins-privees-ms-2013.csv'',
      ''offre_de_soins_privees_ms_2013''),
     (''C:'' @ bsl @ ''Users'' @ bsl @ ''hp'' @ bsl @ ''Desktop'' @ bsl @ ''health'' @ bsl @ ''data'' @ bsl
        @ ''stastique.csv'',
      ''stastique'')]"

text \<open>
  The body of the \<^verbatim>\<open>try\<close>: for the i-th pair, counted from 1, one log line, the
  file path under \<^verbatim>\<open>file_path_i\<close>, then the table name under
  \<^verbatim>\<open>table_name_i\<close>.
\<close>

definition extract_body :: "unit m" where
  "extract_body =
     for_each (enumerate_from 1 files_to_load) (\<lambda>(i, (file_path, table_name)).
       bind_m (log_info (''Chargement des donn'' @ [CHR 0xE9] @ ''es '' @ [CHR 0xE0] @ '' partir de ''
                 @ file_path @ '' pour la table '' @ table_name)) (\<lambda>_.
       bind_m (yield (Output file_path (''file_path_'' @ str_int i))) (\<lambda>_.
       yield (Output table_name (''table_name_'' @ str_int i)))))"

definition extract_dim_product_category :: "unit m" where
  "extract_dim_product_category =
     try_except_Exception extract_body (\<lambda>e.
       bind_m (log_error (''Erreur lors de l'' @ [CHR 0x27] @ ''extraction des donn'' @ [CHR 0xE9]
                 @ ''es : '' @ exn_str e)) (\<lambda>_.
       raise_m e))"

text \<open>
  For the statements below: the events one pass of the loop adds for the pair \<open>x\<close>
  numbered \<open>fst x\<close>, and the events of all passes in order.
\<close>

definition extract_step :: "int \<times> string \<times> string \<Rightarrow> event list" where
  "extract_step x =
     [LogInfo (''Chargement des donn'' @ [CHR 0xE9] @ ''es '' @ [CHR 0xE0] @ '' partir de ''
         @ fst (snd x) @ '' pour la table '' @ snd (snd x)),
      Yield (Output (fst (snd x)) (''file_path_'' @ str_int (fst x))),
      Yield (Output (snd (snd x)) (''table_name_'' @ str_int (fst x)))]"

definition extract_events :: "event list" where
  "extract_events = concat (map extract_step (enumerate_from 1 files_to_load))"

section \<open>The library calls of \<open>load_dim_product_category\<close>\<close>

text \<open>
  \<^verbatim>\<open>sqlalchemy.create_engine\<close>, \<^verbatim>\<open>Engine.connect\<close>, \<^verbatim>\<open>Connection.close\<close>,
  \<^verbatim>\<open>pandas.read_csv\<close> and \<^verbatim>\<open>DataFrame.to_sql\<close> are third-party code. Each
  call is recorded in the trace with its arguments and then either raises, as the
  environment decides, or has its documented effect. Connections are counted where the
  op itself opens them; what the engine does inside \<^verbatim>\<open>to_sql\<close> is the library's.
\<close>

definition create_engine :: "env \<Rightarrow> string \<Rightarrow> engine m" where
  "create_engine env url =
     bind_m (emit (Call (CreateEngine url))) (\<lambda>_.
       case create_engine_fault env url of
         Some e \<Rightarrow> raise_m e
       | None \<Rightarrow> return_m (Engine url))"

definition engine_connect :: "env \<Rightarrow> engine \<Rightarrow> nat m" where
  "engine_connect env eng =
     bind_m (emit (Call (EngineConnect (engine_url eng)))) (\<lambda>_.
       case connect_fault env (engine_url eng) of
         Some e \<Rightarrow> raise_m e
       | None \<Rightarrow> (\<lambda>s. (Inr (length (conns s)), s\<lparr>conns := conns s @ [True]\<rparr>)))"

definition conn_close :: "env \<Rightarrow> nat \<Rightarrow> unit m" where
  "conn_close env c =
     bind_m (emit (Call (ConnClose c))) (\<lambda>_.
       case close_fault env of
         Some e \<Rightarrow> raise_m e
       | None \<Rightarrow> (\<lambda>s. (Inr (), s\<lparr>conns := (conns s)[c := False]\<rparr>)))"

definition pd_read_csv :: "env \<Rightarrow> string \<Rightarrow> string \<Rightarrow> dataframe m" where
  "pd_read_csv env path encoding =
     bind_m (emit (Call (ReadCsv path encoding))) (\<lambda>_.
       case read_csv_result env path encoding of
         Inl e \<Rightarrow> raise_m e
       | Inr df \<Rightarrow> return_m df)"

text \<open>\<^verbatim>\<open>pandas.read_sql(sql, con)\<close>, which the ops never call.\<close>

definition pd_read_sql :: "env \<Rightarrow> string \<Rightarrow> engine \<Rightarrow> dataframe m" where
  "pd_read_sql env sql con =
     bind_m (emit (Call (ReadSql sql (engine_url con)))) (\<lambda>_.
       case read_sql_result env sql (engine_url con) of
         Inl e \<Rightarrow> raise_m e
       | Inr df \<Rightarrow> return_m df)"

text \<open>
  The table \<^verbatim>\<open>to_sql\<close> writes for a frame: with \<^verbatim>\<open>index=True\<close> the row labels
  become a first column named \<open>index\<close>, with \<^verbatim>\<open>index=False\<close> the table has the
  frame's columns and rows only.
\<close>

definition frame_table :: "bool \<Rightarrow> dataframe \<Rightarrow> sql_table" where
  "frame_table index df =
     (if index
      then \<lparr>tbl_columns = ''index'' # df_columns df,
            tbl_rows = map (\<lambda>(l, r). l # r) (zip (df_index df) (df_rows df))\<rparr>
      else \<lparr>tbl_columns = df_columns df, tbl_rows = df_rows df\<rparr>)"

text \<open>
  \<^verbatim>\<open>df.to_sql(name, con=..., if_exists=..., index=...)\<close>: a missing table is created;
  an existing one makes \<open>fail\<close> raise \<open>ValueError\<close>, is dropped and written anew by
  \<open>replace\<close>, and gets the rows added by \<open>append\<close>.
\<close>

definition to_sql :: "env \<Rightarrow> dataframe \<Rightarrow> string \<Rightarrow> engine \<Rightarrow> if_exists \<Rightarrow> bool \<Rightarrow> unit m" where
  "to_sql env df name con mode index =
     bind_m (emit (Call (ToSql df name (engine_url con) mode index))) (\<lambda>_.
       case to_sql_fault env name of
         Some e \<Rightarrow> raise_m e
       | None \<Rightarrow> (\<lambda>s.
           case tables s name of
             None \<Rightarrow> (Inr (), s\<lparr>tables := (tables s)(name \<mapsto> frame_table index df)\<rparr>)
           | Some old \<Rightarrow>
               (case mode of
                  Fail \<Rightarrow>
                    (Inl (Exn True ''ValueError''
                       (''Table '' @ [CHR 0x27] @ name @ [CHR 0x27] @ '' already exists.'')), s)
                | Replace \<Rightarrow> (Inr (), s\<lparr>tables := (tables s)(name \<mapsto> frame_table index df)\<rparr>)
                | Append \<Rightarrow>
                    (Inr (), s\<lparr>tables := (tables s)(name \<mapsto>
                       old\<lparr>tbl_rows := tbl_rows old @ tbl_rows (frame_table index df)\<rparr>)\<rparr>))))"

section \<open>The op \<open>load_dim_product_category\<close>\<close>

definition server_name :: string where
  "server_name = ''DESKTOP-EOHPBP3'' @ bsl @ ''PROJECT''"

definition database_name :: string where
  "database_name = ''health''"

definition connection_string :: string where
  "connection_string =
     ''mssql+pyodbc://'' @ server_name @ ''/'' @ database_name
       @ ''?trusted_connection=yes&driver=ODBC+Driver+17+for+SQL+Server''"

text \<open>The body of the \<^verbatim>\<open>try\<close>, statement by statement.\<close>

definition load_body :: "env \<Rightarrow> string \<Rightarrow> string \<Rightarrow> unit m" where
  "load_body env file_path table_name =
     bind_m (create_engine env connection_string) (\<lambda>engine.
     bind_m (engine_connect env engine) (\<lambda>conn.
     bind_m (pd_read_csv env file_path ''utf-8-sig'') (\<lambda>df.
     bind_m (to_sql env df table_name engine Replace False) (\<lambda>_.
     bind_m (log_info (''Les donn'' @ [CHR 0xE9] @ ''es ont '' @ [CHR 0xE9] @ ''t'' @ [CHR 0xE9]
               @ '' import'' @ [CHR 0xE9] @ ''es avec succ'' @ [CHR 0xE8] @ ''s dans la table ''
               @ table_name @ ''.'')) (\<lambda>_.
     conn_close env conn)))))"

definition load_dim_product_category :: "env \<Rightarrow> string \<Rightarrow> string \<Rightarrow> unit m" where
  "load_dim_product_category env file_path table_name =
     try_except_Exception (load_body env file_path table_name) (\<lambda>e.
       bind_m (log_error (''Erreur lors du chargement des donn'' @ [CHR 0xE9]
                 @ ''es dans SQL Server : '' @ exn_str e)) (\<lambda>_.
       raise_m e))"

section \<open>The ops with the logger as a parameter\<close>

text \<open>
  Both ops write their log lines through \<^verbatim>\<open>context.log\<close>, an object of the
  orchestrator and not of the ETL project. \<open>extract_dim_product_category\<close> and
  \<open>load_dim_product_category\<close> above are the ops in a context whose logger returns
  normally. Here the context is a parameter, as it is in the source: it says, for every
  message, whether \<^verbatim>\<open>context.log.info\<close> and \<^verbatim>\<open>context.log.error\<close> raise,
  and a call that raises writes no line. Building the list of pairs is a list display
  of string constants, and a \<^verbatim>\<open>yield\<close> hands its output to the consumer and
  resumes; neither is a call, and neither raises in a run that is iterated to its end.
\<close>

record op_context =
  info_fault :: "string \<Rightarrow> exn option"
  error_fault :: "string \<Rightarrow> exn option"

text \<open>The f-strings of the log lines that do not belong to the loop of the extract op.\<close>

definition extract_error_message :: "exn \<Rightarrow> string" where
  "extract_error_message e =
     ''Erreur lors de l'' @ [CHR 0x27] @ ''extraction des donn'' @ [CHR 0xE9] @ ''es : ''
       @ exn_str e"

definition load_done_message :: "string \<Rightarrow> string" where
  "load_done_message table_name =
     ''Les donn'' @ [CHR 0xE9] @ ''es ont '' @ [CHR 0xE9] @ ''t'' @ [CHR 0xE9] @ '' import''
       @ [CHR 0xE9] @ ''es avec succ'' @ [CHR 0xE8] @ ''s dans la table '' @ table_name @ ''.''"

definition load_error_message :: "exn \<Rightarrow> string" where
  "load_error_message e =
     ''Erreur lors du chargement des donn'' @ [CHR 0xE9] @ ''es dans SQL Server : ''
       @ exn_str e"

definition context_log_info :: "op_context \<Rightarrow> string \<Rightarrow> unit m" where
  "context_log_info ctx msg =
     (case info_fault ctx msg of Some e \<Rightarrow> raise_m e | None \<Rightarrow> emit (LogInfo msg))"

definition context_log_error :: "op_context \<Rightarrow> string \<Rightarrow> unit m" where
  "context_log_error ctx msg =
     (case error_fault ctx msg of Some e \<Rightarrow> raise_m e | None \<Rightarrow> emit (LogError msg))"

definition extract_body_ctx :: "op_context \<Rightarrow> unit m" where
  "extract_body_ctx ctx =
     for_each (enumerate_from 1 files_to_load) (\<lambda>(i, (file_path, table_name)).
       bind_m (context_log_info ctx (''Chargement des donn'' @ [CHR 0xE9] @ ''es '' @ [CHR 0xE0]
                 @ '' partir de '' @ file_path @ '' pour la table '' @ table_name)) (\<lambda>_.
       bind_m (yield (Output file_path (''file_path_'' @ str_int i))) (\<lambda>_.
       yield (Output table_name (''table_name_'' @ str_int i)))))"

definition extract_dim_product_category_ctx :: "op_context \<Rightarrow> unit m" where
  "extract_dim_product_category_ctx ctx =
     try_except_Exception (extract_body_ctx ctx) (\<lambda>e.
       bind_m (context_log_error ctx (extract_error_message e)) (\<lambda>_.
       raise_m e))"

definition load_body_ctx :: "op_context \<Rightarrow> env \<Rightarrow> string \<Rightarrow> string \<Rightarrow> unit m" where
  "load_body_ctx ctx env file_path table_name =
     bind_m (create_engine env connection_string) (\<lambda>engine.
     bind_m (engine_connect env engine) (\<lambda>conn.
     bind_m (pd_read_csv env file_path ''utf-8-sig'') (\<lambda>df.
     bind_m (to_sql env df table_name engine Replace False) (\<lambda>_.
     bind_m (context_log_info ctx (load_done_message table_name)) (\<lambda>_.
     conn_close env conn)))))"

definition load_dim_product_category_ctx ::
    "op_context \<Rightarrow> env \<Rightarrow> string \<Rightarrow> string \<Rightarrow> unit m" where
  "load_dim_product_category_ctx ctx env file_path table_name =
     try_except_Exception (load_body_ctx ctx env file_path table_name) (\<lambda>e.
       bind_m (context_log_error ctx (load_error_message e)) (\<lambda>_.
       raise_m e))"

text \<open>
  For the statements below. The first exception among the outcomes of a sequence of
  calls; the log line of the pass for the numbered pair \<open>x\<close>; the exception that ends
  the body of the extract op, if one does; the passes of its loop that are completed;
  and the exception that ends the body of the load op, if one does: that of the first
  call of the body, in the order of the body, that raises.
\<close>

fun first_some :: "'a option list \<Rightarrow> 'a option" where
  "first_some [] = None"
| "first_some (None # xs) = first_some xs"
| "first_some (Some v # xs) = Some v"

definition extract_message :: "int \<times> string \<times> string \<Rightarrow> string" where
  "extract_message x =
     ''Chargement des donn'' @ [CHR 0xE9] @ ''es '' @ [CHR 0xE0] @ '' partir de ''
       @ fst (snd x) @ '' pour la table '' @ snd (snd x)"

definition extract_fault :: "op_context \<Rightarrow> exn option" where
  "extract_fault ctx =
     first_some (map (\<lambda>x. info_fault ctx (extract_message x)) (enumerate_from 1 files_to_load))"

definition extract_done :: "op_context \<Rightarrow> (int \<times> string \<times> string) list" where
  "extract_done ctx =
     takeWhile (\<lambda>x. info_fault ctx (extract_message x) = None) (enumerate_from 1 files_to_load)"

definition load_fault :: "op_context \<Rightarrow> env \<Rightarrow> string \<Rightarrow> string \<Rightarrow> exn option" where
  "load_fault ctx env file_path table_name =
     (case create_engine_fault env connection_string of
        Some e \<Rightarrow> Some e
      | None \<Rightarrow>
     (case connect_fault env connection_string of
        Some e \<Rightarrow> Some e
      | None \<Rightarrow>
     (case read_csv_result env file_path ''utf-8-sig'' of
        Inl e \<Rightarrow> Some e
      | Inr df \<Rightarrow>
     (case to_sql_fault env table_name of
        Some e \<Rightarrow> Some e
      | None \<Rightarrow>
     (case info_fault ctx (load_done_message table_name) of
        Some e \<Rightarrow> Some e
      | None \<Rightarrow> close_fault env)))))"

section \<open>The job \<open>etl\<close>\<close>

text \<open>
  Invoking an op with several outputs inside a job gives a tuple of handles, one for
  each name of its \<^verbatim>\<open>out\<close> dictionary, in the dictionary's order. A handle is
  modelled by the output's name; an index outside the tuple is an \<open>IndexError\<close>, here
  \<open>None\<close>.
\<close>

datatype node = InvokeExtract | InvokeLoad string string

definition tuple_get :: "'a list \<Rightarrow> nat \<Rightarrow> 'a option" where
  "tuple_get xs i = (if i < length xs then Some (xs ! i) else None)"

definition invoke_load :: "string option \<Rightarrow> string option \<Rightarrow> node option" where
  "invoke_load file_path table_name =
     (case (file_path, table_name) of
        (Some f, Some t) \<Rightarrow> Some (InvokeLoad f t)
      | _ \<Rightarrow> None)"

definition etl :: "node list option" where
  "etl =
     (let extract_results = extract_out in
      map_option (\<lambda>loads. InvokeExtract # loads) (those
        [invoke_load (tuple_get extract_results 0) (tuple_get extract_results 1),
         invoke_load (tuple_get extract_results 2) (tuple_get extract_results 3),
         invoke_load (tuple_get extract_results 4) (tuple_get extract_results 5),
         invoke_load (tuple_get extract_results 6) (tuple_get extract_results 7),
         invoke_load (tuple_get extract_results 8) (tuple_get extract_results 9),
         invoke_load (tuple_get extract_results 10) (tuple_get extract_results 11),
         invoke_load (tuple_get extract_results 12) (tuple_get extract_results 13),
         invoke_load (tuple_get extract_results 14) (tuple_get extract_results 15),
         invoke_load (tuple_get extract_results 16) (tuple_get extract_results 17),
         invoke_load (tuple_get extract_results 18) (tuple_get extract_results 19),
         invoke_load (tuple_get extract_results 20) (tuple_get extract_results 21)]))"

text \<open>
  At run time a handle stands for the value the extract op yielded under that name.
  \<open>load_calls\<close> lists the arguments of the load invocations of a job, in the order of
  the job's text.
\<close>

definition output_value :: "output list \<Rightarrow> string \<Rightarrow> string option" where
  "output_value ys name = map_of (map (\<lambda>y. (output_name y, out_value y)) ys) name"

fun load_args :: "output list \<Rightarrow> node \<Rightarrow> (string \<times> string) option list" where
  "load_args ys InvokeExtract = []"
| "load_args ys (InvokeLoad f t) =
     [case (output_value ys f, output_value ys t) of
        (Some fv, Some tv) \<Rightarrow> Some (fv, tv)
      | _ \<Rightarrow> None]"

definition load_calls :: "node list option \<Rightarrow> output list \<Rightarrow> (string \<times> string) list option" where
  "load_calls job ys =
     (case job of
        None \<Rightarrow> None
      | Some nodes \<Rightarrow> those (concat (map (load_args ys) nodes)))"

definition extract_invocations :: "node list option \<Rightarrow> nat option" where
  "extract_invocations job = map_option (\<lambda>nodes. length (filter (\<lambda>n. n = InvokeExtract) nodes)) job"

section \<open>The schedule \<open>etl_job_schedule\<close>\<close>

record schedule_definition =
  cron_schedule :: string
  job :: "node list option"
  execution_timezone :: "string option"
  run_config :: "(string \<times> string) list"

definition etl_job_schedule :: schedule_definition where
  "etl_job_schedule =
     \<lparr>cron_schedule = ''0 10 * * *'', job = etl, execution_timezone = Some ''US/Central'',
      run_config = []\<rparr>"

text \<open>
  A five-field cron expression, read the standard way for the two forms the schedule
  uses: \<open>*\<close> matches every value, a number matches itself. Any other form is not
  accepted. A tick is a minute of wall-clock time in the execution timezone.
\<close>

record tick =
  tick_minute :: nat
  tick_hour :: nat
  tick_day :: nat
  tick_month :: nat
  tick_weekday :: nat

definition digit_value :: "char \<Rightarrow> nat option" where
  "digit_value c =
     map_of [(CHR ''0'', 0), (CHR ''1'', 1), (CHR ''2'', 2), (CHR ''3'', 3), (CHR ''4'', 4),
             (CHR ''5'', 5), (CHR ''6'', 6), (CHR ''7'', 7), (CHR ''8'', 8), (CHR ''9'', 9)] c"

fun parse_digits :: "nat \<Rightarrow> string \<Rightarrow> nat option" where
  "parse_digits acc [] = Some acc"
| "parse_digits acc (c # cs) =
     (case digit_value c of None \<Rightarrow> None | Some d \<Rightarrow> parse_digits (10 * acc + d) cs)"

definition parse_nat :: "string \<Rightarrow> nat option" where
  "parse_nat cs = (if cs = [] then None else parse_digits 0 cs)"

fun split_spaces :: "string \<Rightarrow> string \<Rightarrow> string list" where
  "split_spaces cur [] = [rev cur]"
| "split_spaces cur (c # cs) =
     (if c = CHR '' '' then rev cur # split_spaces [] cs else split_spaces (c # cur) cs)"

datatype cron_field = Every | Exactly nat

definition parse_field :: "string \<Rightarrow> cron_field option" where
  "parse_field f = (if f = ''*'' then Some Every else map_option Exactly (parse_nat f))"

fun field_matches :: "cron_field \<Rightarrow> nat \<Rightarrow> bool" where
  "field_matches Every v = True"
| "field_matches (Exactly n) v = (v = n)"

definition cron_matches :: "string \<Rightarrow> tick \<Rightarrow> bool" where
  "cron_matches expr t =
     (case those (map parse_field (split_spaces [] expr)) of
        Some [mi, hr, dm, mo, dw] \<Rightarrow>
          field_matches mi (tick_minute t) \<and> field_matches hr (tick_hour t) \<and>
          field_matches mo (tick_month t) \<and>
          (if dm = Every \<or> dw = Every
           then field_matches dm (tick_day t) \<and> field_matches dw (tick_weekday t)
           else field_matches dm (tick_day t) \<or> field_matches dw (tick_weekday t))
      | _ \<Rightarrow> False)"

definition fires :: "schedule_definition \<Rightarrow> tick \<Rightarrow> bool" where
  "fires sched t = cron_matches (cron_schedule sched) t"

text \<open>The connection target a library call names, if it names one.\<close>

fun call_target :: "libcall \<Rightarrow> string list" where
  "call_target (CreateEngine url) = [url]"
| "call_target (EngineConnect url) = [url]"
| "call_target (ReadSql _ url) = [url]"
| "call_target (ToSql _ _ url _ _) = [url]"
| "call_target _ = []"

section \<open>Concrete runs\<close>

text \<open>
  A frame of two rows, a table with other contents, two starting worlds, and three
  environments: one in which every call succeeds (and in which \<^verbatim>\<open>read_sql\<close>, given
  a file path for a query, is refused by the server), one in which the file is missing,
  and one in which the read is interrupted from the keyboard.
\<close>

definition df_example :: dataframe where
  "df_example =
     \<lparr>df_index = [''0'', ''1''], df_columns = [''Year'', ''Deaths''],
      df_rows = [[''2019'', ''12''], [''2020'', ''15'']]\<rparr>"

definition old_table :: sql_table where
  "old_table = \<lparr>tbl_columns = [''Region''], tbl_rows = [[''Souss''], [''Oriental''], [''Rabat'']]\<rparr>"

definition world_empty :: world where
  "world_empty = \<lparr>tables = Map.empty, conns = [], trace = []\<rparr>"

definition world_with_table :: world where
  "world_with_table = \<lparr>tables = [''calcule'' \<mapsto> old_table], conns = [], trace = []\<rparr>"

definition env_ok :: env where
  "env_ok =
     \<lparr>create_engine_fault = (\<lambda>url. None),
      connect_fault = (\<lambda>url. None),
      read_csv_result = (\<lambda>path encoding. Inr df_example),
      read_sql_result = (\<lambda>sql url. Inl (Exn True ''ProgrammingError'' ''Incorrect syntax'')),
      to_sql_fault = (\<lambda>name. None),
      close_fault = None\<rparr>"

definition env_missing_file :: env where
  "env_missing_file =
     env_ok\<lparr>read_csv_result := (\<lambda>path encoding.
        Inl (Exn True ''FileNotFoundError'' (''[Errno 2] No such file or directory: '' @ path)))\<rparr>"

definition env_interrupted :: env where
  "env_interrupted =
     env_ok\<lparr>read_csv_result := (\<lambda>path encoding. Inl (Exn False ''KeyboardInterrupt'' []))\<rparr>"

text \<open>
  An environment in which closing the connection fails after the table was written,
  and three contexts: one whose logger returns normally, one whose
  \<^verbatim>\<open>log.info\<close> raises (the disk of the log file is full), and one whose
  \<^verbatim>\<open>log.error\<close> raises.
\<close>

definition env_close_fails :: env where
  "env_close_fails =
     env_ok\<lparr>close_fault := Some (Exn True ''OperationalError'' ''connection lost'')\<rparr>"

definition ctx_quiet :: op_context where
  "ctx_quiet = \<lparr>info_fault = (\<lambda>msg. None), error_fault = (\<lambda>msg. None)\<rparr>"

definition ctx_info_raises :: op_context where
  "ctx_info_raises =
     \<lparr>info_fault = (\<lambda>msg. Some (Exn True ''OSError'' ''[Errno 28] No space left on device'')),
      error_fault = (\<lambda>msg. None)\<rparr>"

definition ctx_error_raises :: op_context where
  "ctx_error_raises =
     \<lparr>info_fault = (\<lambda>msg. None),
      error_fault = (\<lambda>msg. Some (Exn True ''OSError'' ''[Errno 28] No space left on device''))\<rparr>"

section \<open>Runs of the extract op\<close>

lemma str_int_small:
  "str_int 1 = ''1''" "str_int 2 = ''2''" "str_int 3 = ''3''" "str_int 4 = ''4''"
  "str_int 5 = ''5''" "str_int 6 = ''6''" "str_int 7 = ''7''" "str_int 8 = ''8''"
  "str_int 9 = ''9''" "str_int 10 = ''10''" "str_int 11 = ''11''"
  by (simp_all add: str_int_def str_nat.simps digit_char_def)

text \<open>A loop whose body only adds events adds the events of every pass, in order.\<close>

lemma for_each_trace:
  assumes "\<And>x s. body x s = (Inr (), s\<lparr>trace := trace s @ f x\<rparr>)"
  shows "for_each xs body s = (Inr (), s\<lparr>trace := trace s @ concat (map f xs)\<rparr>)"
proof (induction xs arbitrary: s)
  case Nil
  show ?case by (simp add: return_m_def)
next
  case (Cons x xs)
  have "for_each (x # xs) body s = for_each xs body (s\<lparr>trace := trace s @ f x\<rparr>)"
    using assms [of x s] by (simp add: bind_m_def)
  then show ?case
    by (simp add: Cons.IH)
qed

lemma extract_body_run:
  "extract_body s = (Inr (), s\<lparr>trace := trace s @ extract_events\<rparr>)"
  unfolding extract_body_def extract_events_def
  by (rule for_each_trace)
     (simp add: case_prod_beta bind_m_def emit_def log_info_def yield_def extract_step_def)

lemma extract_run:
  "extract_dim_product_category s = (Inr (), s\<lparr>trace := trace s @ extract_events\<rparr>)"
  by (simp add: extract_dim_product_category_def try_except_Exception_def extract_body_run)

lemma extract_new_events:
  "new_events s (snd (extract_dim_product_category s)) = extract_events"
  by (simp add: extract_run new_events_def)

lemma extract_events_names: "map output_name (yields extract_events) = extract_out"
  by (simp add: extract_events_def files_to_load_def extract_step_def str_int_small extract_out_def)

lemma extract_events_values:
  "map out_value (yields extract_events) =
     concat (map (\<lambda>(file_path, table_name). [file_path, table_name]) files_to_load)"
  by (simp add: extract_events_def files_to_load_def extract_step_def)

lemma extract_events_no_error: "error_logs extract_events = []"
  by (simp add: extract_events_def files_to_load_def extract_step_def)

lemma length_yields_extract_events: "length (yields extract_events) = 22"
  using arg_cong [OF extract_events_names, of length] by (simp add: extract_out_def)

lemma length_files_to_load: "length files_to_load = 11"
  by (simp add: files_to_load_def)


section \<open>The wiring of the job\<close>

lemma etl_nodes:
  "etl = Some
     [InvokeExtract,
      InvokeLoad ''file_path_1'' ''table_name_1'', InvokeLoad ''file_path_2'' ''table_name_2'',
      InvokeLoad ''file_path_3'' ''table_name_3'', InvokeLoad ''file_path_4'' ''table_name_4'',
      InvokeLoad ''file_path_5'' ''table_name_5'', InvokeLoad ''file_path_6'' ''table_name_6'',
      InvokeLoad ''file_path_7'' ''table_name_7'', InvokeLoad ''file_path_8'' ''table_name_8'',
      InvokeLoad ''file_path_9'' ''table_name_9'', InvokeLoad ''file_path_10'' ''table_name_10'',
      InvokeLoad ''file_path_11'' ''table_name_11'']"
  by (simp add: etl_def extract_out_def tuple_get_def invoke_load_def)

lemma load_calls_etl:
  "load_calls etl (yields extract_events) = Some files_to_load"
  by (simp add: etl_nodes load_calls_def output_value_def extract_events_def files_to_load_def
        extract_step_def str_int_small)

text \<open>
  C3: the job invokes the extract op once and the load op eleven times, and the i-th
  load invocation receives the i-th hard-coded pair: the values yielded under
  \<open>file_path_i\<close> and \<open>table_name_i\<close>, none skipped, repeated or crossed.
\<close>

theorem etl_wires_each_pair_to_its_load:
  "extract_invocations etl = Some 1 \<and>
   map_option length
     (load_calls etl (yields (new_events s (snd (extract_dim_product_category s))))) = Some 11 \<and>
   load_calls etl (yields (new_events s (snd (extract_dim_product_category s)))) =
     Some files_to_load"
  by (simp add: extract_new_events load_calls_etl length_files_to_load)
     (simp add: etl_nodes extract_invocations_def)

text \<open>
  C9: the hard-coded list pairs file paths and table names one to one: the eleven
  paths are pairwise distinct and so are the eleven table names, hence within a run no
  two load invocations read the same file or write the same table.
\<close>

theorem files_to_load_pairing_is_one_to_one:
  "distinct (map fst files_to_load) \<and> distinct (map snd files_to_load) \<and>
   (case load_calls etl (yields (new_events s (snd (extract_dim_product_category s)))) of
      None \<Rightarrow> False
    | Some cs \<Rightarrow> distinct (map fst cs) \<and> distinct (map snd cs))"
proof -
  have paths: "distinct (map fst files_to_load)"
    by (simp add: files_to_load_def bsl_def)
  have names: "distinct (map snd files_to_load)"
    by (simp add: files_to_load_def)
  show ?thesis
    using paths names by (simp add: extract_new_events load_calls_etl)
qed

section \<open>Runs of the load op\<close>

lemmas lib_defs =
  create_engine_def engine_connect_def conn_close_def pd_read_csv_def to_sql_def
  bind_m_def emit_def return_m_def raise_m_def log_info_def log_error_def

lemmas load_defs =
  load_dim_product_category_def load_body_def try_except_Exception_def lib_defs

text \<open>A load that returns normally made its five library calls once each, in order.\<close>

lemma load_success_state:
  assumes "load_dim_product_category env file_path table_name s = (Inr (), s')"
  shows "\<exists>df. read_csv_result env file_path ''utf-8-sig'' = Inr df \<and>
           tables s' = (tables s)(table_name \<mapsto> frame_table False df) \<and>
           conns s' = conns s @ [False] \<and>
           new_events s s' =
             [Call (CreateEngine connection_string), Call (EngineConnect connection_string),
              Call (ReadCsv file_path ''utf-8-sig''),
              Call (ToSql df table_name connection_string Replace False),
              LogInfo (''Les donn'' @ [CHR 0xE9] @ ''es ont '' @ [CHR 0xE9] @ ''t'' @ [CHR 0xE9]
                 @ '' import'' @ [CHR 0xE9] @ ''es avec succ'' @ [CHR 0xE8] @ ''s dans la table ''
                 @ table_name @ ''.''),
              Call (ConnClose (length (conns s)))]"
  using assms
  by (auto simp: load_defs new_events_def split: option.splits sum.splits if_splits)

lemma load_env_ok_empty:
  "load_dim_product_category env_ok ''calcule.csv'' ''calcule'' world_empty =
     (Inr (),
      \<lparr>tables = [''calcule'' \<mapsto> frame_table False df_example], conns = [False],
       trace =
         [Call (CreateEngine connection_string), Call (EngineConnect connection_string),
          Call (ReadCsv ''calcule.csv'' ''utf-8-sig''),
          Call (ToSql df_example ''calcule'' connection_string Replace False),
          LogInfo (''Les donn'' @ [CHR 0xE9] @ ''es ont '' @ [CHR 0xE9] @ ''t'' @ [CHR 0xE9]
             @ '' import'' @ [CHR 0xE9] @ ''es avec succ'' @ [CHR 0xE8] @ ''s dans la table ''
             @ ''calcule'' @ ''.''),
          Call (ConnClose 0)]\<rparr>)"
  by (simp add: load_defs env_ok_def world_empty_def)

lemma load_env_ok_with_table:
  "load_dim_product_category env_ok ''calcule.csv'' ''calcule'' world_with_table =
     (Inr (),
      \<lparr>tables = [''calcule'' \<mapsto> frame_table False df_example], conns = [False],
       trace =
         [Call (CreateEngine connection_string), Call (EngineConnect connection_string),
          Call (ReadCsv ''calcule.csv'' ''utf-8-sig''),
          Call (ToSql df_example ''calcule'' connection_string Replace False),
          LogInfo (''Les donn'' @ [CHR 0xE9] @ ''es ont '' @ [CHR 0xE9] @ ''t'' @ [CHR 0xE9]
             @ '' import'' @ [CHR 0xE9] @ ''es avec succ'' @ [CHR 0xE8] @ ''s dans la table ''
             @ ''calcule'' @ ''.''),
          Call (ConnClose 0)]\<rparr>)"
  by (simp add: load_defs env_ok_def world_with_table_def)

text \<open>
  C1, as the spec words it: the data written to the table is obtained by the
  \<^verbatim>\<open>pandas.read_sql\<close> call on the file path. In a run where every call succeeds
  the table holds the frame \<^verbatim>\<open>read_csv\<close> returned, \<^verbatim>\<open>read_sql\<close> on that path
  returns no frame at all, and the op never called it.
\<close>

theorem load_reads_csv_not_sql_counterexample:
  "(case load_dim_product_category env_ok ''calcule.csv'' ''calcule'' world_empty of
      (r, s') \<Rightarrow>
        r = Inr () \<and>
        tables s' ''calcule'' = Some (frame_table False df_example) \<and>
        read_csv_result env_ok ''calcule.csv'' ''utf-8-sig'' = Inr df_example \<and>
        read_sql_result env_ok ''calcule.csv'' connection_string =
          Inl (Exn True ''ProgrammingError'' ''Incorrect syntax'') \<and>
        ReadSql ''calcule.csv'' connection_string \<notin> set (calls (trace s')))"
  by (simp add: load_env_ok_empty) (simp add: env_ok_def)

text \<open>The library calls a load makes, and the tables it leaves, on every path.\<close>

lemma load_calls_made:
  "calls (new_events s (snd (load_dim_product_category env file_path table_name s))) =
     (case create_engine_fault env connection_string of
        Some e \<Rightarrow> [CreateEngine connection_string]
      | None \<Rightarrow>
     (case connect_fault env connection_string of
        Some e \<Rightarrow> [CreateEngine connection_string, EngineConnect connection_string]
      | None \<Rightarrow>
          [CreateEngine connection_string, EngineConnect connection_string,
           ReadCsv file_path ''utf-8-sig''] @
     (case read_csv_result env file_path ''utf-8-sig'' of
        Inl e \<Rightarrow> []
      | Inr df \<Rightarrow>
          ToSql df table_name connection_string Replace False #
     (case to_sql_fault env table_name of
        Some e \<Rightarrow> []
      | None \<Rightarrow> [ConnClose (length (conns s))]))))"
  by (simp add: load_defs new_events_def split: option.splits sum.splits)

lemma load_tables_written:
  "tables (snd (load_dim_product_category env file_path table_name s)) =
     (case create_engine_fault env connection_string of
        Some e \<Rightarrow> tables s
      | None \<Rightarrow>
     (case connect_fault env connection_string of
        Some e \<Rightarrow> tables s
      | None \<Rightarrow>
     (case read_csv_result env file_path ''utf-8-sig'' of
        Inl e \<Rightarrow> tables s
      | Inr df \<Rightarrow>
     (case to_sql_fault env table_name of
        Some e \<Rightarrow> tables s
      | None \<Rightarrow> (tables s)(table_name \<mapsto> frame_table False df)))))"
  by (simp add: load_defs split: option.splits sum.splits)

text \<open>
  C1, amended: the load op loads a CSV into a SQL Server table via
  \<^verbatim>\<open>pandas.read_csv\<close> and \<^verbatim>\<open>DataFrame.to_sql\<close>: for every invocation with a
  file path and a table name, the data written to the table is obtained by the
  \<^verbatim>\<open>read_csv\<close> call on the file path and written by \<^verbatim>\<open>to_sql\<close>. On every
  path the op makes no \<^verbatim>\<open>read_sql\<close> call, at most one \<^verbatim>\<open>read_csv\<close> call, on
  the file path, and at most one \<^verbatim>\<open>to_sql\<close> call, which carries the frame that
  \<^verbatim>\<open>read_csv\<close> returned; the tables change only by that write, also when the op
  raises afterwards.
\<close>

theorem load_writes_the_frame_read_by_read_csv:
  "(let s' = snd (load_dim_product_category env file_path table_name s);
        cs = calls (new_events s s');
        connected = (create_engine_fault env connection_string = None \<and>
                     connect_fault env connection_string = None)
    in filter (\<lambda>c. call_name c = ''read_sql'') cs = [] \<and>
       filter (\<lambda>c. call_name c = ''read_csv'') cs =
         (if connected then [ReadCsv file_path ''utf-8-sig''] else []) \<and>
       filter (\<lambda>c. call_name c = ''to_sql'') cs =
         (if connected
          then (case read_csv_result env file_path ''utf-8-sig'' of
                  Inr df \<Rightarrow> [ToSql df table_name connection_string Replace False]
                | Inl e \<Rightarrow> [])
          else []) \<and>
       tables s' =
         (if connected
          then (case read_csv_result env file_path ''utf-8-sig'' of
                  Inr df \<Rightarrow>
                    (case to_sql_fault env table_name of
                       None \<Rightarrow> (tables s)(table_name \<mapsto> frame_table False df)
                     | Some e \<Rightarrow> tables s)
                | Inl e \<Rightarrow> tables s)
          else tables s))"
  by (simp add: Let_def load_calls_made load_tables_written split: option.splits sum.splits)

theorem load_writes_the_frame_read_by_read_csv_witness:
  "fst (load_dim_product_category env_close_fails ''calcule.csv'' ''calcule'' world_with_table) =
     Inl (Exn True ''OperationalError'' ''connection lost'') \<and>
   read_csv_result env_close_fails ''calcule.csv'' ''utf-8-sig'' = Inr df_example \<and>
   filter (\<lambda>c. call_name c = ''to_sql'')
     (calls (new_events world_with_table
        (snd (load_dim_product_category env_close_fails ''calcule.csv'' ''calcule''
           world_with_table)))) =
     [ToSql df_example ''calcule'' connection_string Replace False] \<and>
   tables (snd (load_dim_product_category env_close_fails ''calcule.csv'' ''calcule''
      world_with_table)) ''calcule'' = Some (frame_table False df_example)"
proof -
  have raised: "fst (load_dim_product_category env_close_fails ''calcule.csv'' ''calcule''
      world_with_table) = Inl (Exn True ''OperationalError'' ''connection lost'')"
    by (simp add: load_defs env_close_fails_def env_ok_def world_with_table_def)
  have env: "create_engine_fault env_close_fails connection_string = None"
    "connect_fault env_close_fails connection_string = None"
    "read_csv_result env_close_fails ''calcule.csv'' ''utf-8-sig'' = Inr df_example"
    "to_sql_fault env_close_fails ''calcule'' = None"
    by (simp_all add: env_close_fails_def env_ok_def)
  show ?thesis
    using raised env
      load_writes_the_frame_read_by_read_csv [of env_close_fails "''calcule.csv''" "''calcule''"
        world_with_table]
    by (simp add: Let_def)
qed

text \<open>
  C5: every load writes with replace semantics and without an index column, so after a
  load that returns normally the named table has exactly the columns and rows of the
  frame read from the CSV, whether or not the table existed and whatever it held; the
  other tables are as before.
\<close>

theorem load_replaces_table_wholesale:
  assumes "load_dim_product_category env file_path table_name s = (Inr (), s')"
  shows "\<exists>df. read_csv_result env file_path ''utf-8-sig'' = Inr df \<and>
           ToSql df table_name connection_string Replace False \<in> set (calls (new_events s s')) \<and>
           tables s' = (tables s)(table_name \<mapsto>
              \<lparr>tbl_columns = df_columns df, tbl_rows = df_rows df\<rparr>)"
  using load_success_state [OF assms] by (auto simp: frame_table_def)

theorem load_replaces_table_wholesale_witness:
  "tables world_with_table ''calcule'' =
     Some \<lparr>tbl_columns = [''Region''], tbl_rows = [[''Souss''], [''Oriental''], [''Rabat'']]\<rparr> \<and>
   fst (load_dim_product_category env_ok ''calcule.csv'' ''calcule'' world_with_table) = Inr () \<and>
   tables (snd (load_dim_product_category env_ok ''calcule.csv'' ''calcule'' world_with_table))
     ''calcule'' =
     Some \<lparr>tbl_columns = [''Year'', ''Deaths''],
           tbl_rows = [[''2019'', ''12''], [''2020'', ''15'']]\<rparr>"
proof -
  have ok: "fst (load_dim_product_category env_ok ''calcule.csv'' ''calcule'' world_with_table) = Inr ()"
    by (simp add: load_env_ok_with_table)
  then have run: "load_dim_product_category env_ok ''calcule.csv'' ''calcule'' world_with_table =
      (Inr (), snd (load_dim_product_category env_ok ''calcule.csv'' ''calcule'' world_with_table))"
    by (simp add: prod_eq_iff)
  have frame: "read_csv_result env_ok ''calcule.csv'' ''utf-8-sig'' = Inr df_example"
    by (simp add: env_ok_def)
  have before: "tables world_with_table ''calcule'' =
     Some \<lparr>tbl_columns = [''Region''], tbl_rows = [[''Souss''], [''Oriental''], [''Rabat'']]\<rparr>"
    by (simp add: world_with_table_def old_table_def)
  from load_replaces_table_wholesale [OF run] frame
  have "tables (snd (load_dim_product_category env_ok ''calcule.csv'' ''calcule'' world_with_table))
     ''calcule'' = Some \<lparr>tbl_columns = df_columns df_example, tbl_rows = df_rows df_example\<rparr>"
    by auto
  then show ?thesis
    using ok before by (simp add: df_example_def)
qed

text \<open>
  C4: every load opens exactly one connection and closes it before the op ends, also
  when an exception is caught and raised again. The code closes the connection as the
  last statement of the \<^verbatim>\<open>try\<close> body only: when \<^verbatim>\<open>read_csv\<close> raises for a
  missing file, the one connection the op opened is still open when the op ends, and no
  \<^verbatim>\<open>close\<close> call was made.
\<close>

theorem load_leaves_connection_open_when_read_csv_raises:
  "(case load_dim_product_category env_missing_file ''calcule.csv'' ''calcule'' world_empty of
      (r, s') \<Rightarrow>
        r = Inl (Exn True ''FileNotFoundError''
                   ''[Errno 2] No such file or directory: calcule.csv'') \<and>
        conns s' = [True] \<and>
        calls (trace s') =
          [CreateEngine connection_string, EngineConnect connection_string,
           ReadCsv ''calcule.csv'' ''utf-8-sig''])"
  by (simp add: load_defs env_missing_file_def env_ok_def world_empty_def)

text \<open>
  C8: whatever the file path and the table name, the load op builds the same
  connection string, which names the server \<^verbatim>\<open>DESKTOP-EOHPBP3\PROJECT\<close> and the
  database \<open>health\<close>; every call of the op that names a connection target names it.
\<close>

theorem load_connection_string_is_constant:
  "server_name = ''DESKTOP-EOHPBP3'' @ bsl @ ''PROJECT'' \<and>
   database_name = ''health'' \<and>
   connection_string =
     ''mssql+pyodbc://DESKTOP-EOHPBP3'' @ bsl
       @ ''PROJECT/health?trusted_connection=yes&driver=ODBC+Driver+17+for+SQL+Server'' \<and>
   set (concat (map call_target
     (calls (new_events s (snd (load_dim_product_category env file_path table_name s)))))) =
     {connection_string}"
proof -
  have "set (concat (map call_target
     (calls (new_events s (snd (load_dim_product_category env file_path table_name s)))))) =
     {connection_string}"
    by (auto simp: load_defs new_events_def split: option.splits sum.splits)
  moreover have "connection_string =
     ''mssql+pyodbc://DESKTOP-EOHPBP3'' @ bsl
       @ ''PROJECT/health?trusted_connection=yes&driver=ODBC+Driver+17+for+SQL+Server''"
    by (simp add: server_name_def database_name_def connection_string_def)
  ultimately show ?thesis
    by (simp add: server_name_def database_name_def)
qed

section \<open>Runs with a logger that may raise\<close>

lemmas ctx_defs =
  load_dim_product_category_ctx_def load_body_ctx_def try_except_Exception_def
  context_log_info_def context_log_error_def lib_defs

text \<open>With a logger that returns normally the ops are the ones of the sections above.\<close>

lemma context_log_quiet:
  "context_log_info ctx_quiet = log_info" "context_log_error ctx_quiet = log_error"
  by (simp_all add: fun_eq_iff context_log_info_def context_log_error_def ctx_quiet_def
        log_info_def log_error_def)

lemma extract_ctx_quiet:
  "extract_body_ctx ctx_quiet = extract_body"
  "extract_dim_product_category_ctx ctx_quiet = extract_dim_product_category"
  by (simp_all add: extract_dim_product_category_ctx_def extract_body_ctx_def
        extract_dim_product_category_def extract_body_def context_log_quiet
        extract_error_message_def)

lemma load_ctx_quiet:
  "load_body_ctx ctx_quiet env file_path table_name = load_body env file_path table_name"
  "load_dim_product_category_ctx ctx_quiet env file_path table_name =
     load_dim_product_category env file_path table_name"
  by (simp_all add: load_dim_product_category_ctx_def load_body_ctx_def
        load_dim_product_category_def load_body_def context_log_quiet
        load_done_message_def load_error_message_def)

text \<open>
  A loop whose passes either raise at their start or add their events: it ends with the
  first exception, after the events of the passes before it.
\<close>

lemma for_each_faulting:
  assumes "\<And>x s. body x s =
     (case fault x of Some e \<Rightarrow> (Inl e, s) | None \<Rightarrow> (Inr (), s\<lparr>trace := trace s @ f x\<rparr>))"
  shows "for_each xs body s =
     ((case first_some (map fault xs) of None \<Rightarrow> Inr () | Some e \<Rightarrow> Inl e),
      s\<lparr>trace := trace s @ concat (map f (takeWhile (\<lambda>x. fault x = None) xs))\<rparr>)"
proof (induction xs arbitrary: s)
  case Nil
  show ?case by (simp add: return_m_def)
next
  case (Cons x xs)
  show ?case
  proof (cases "fault x")
    case None
    then have "for_each (x # xs) body s = for_each xs body (s\<lparr>trace := trace s @ f x\<rparr>)"
      using assms [of x s] by (simp add: bind_m_def)
    then show ?thesis
      using None by (simp add: Cons.IH)
  next
    case (Some e)
    then have "for_each (x # xs) body s = (Inl e, s)"
      using assms [of x s] by (simp add: bind_m_def)
    then show ?thesis
      using Some by simp
  qed
qed

lemma extract_body_ctx_run:
  "extract_body_ctx ctx s =
     ((case extract_fault ctx of None \<Rightarrow> Inr () | Some e \<Rightarrow> Inl e),
      s\<lparr>trace := trace s @ concat (map extract_step (extract_done ctx))\<rparr>)"
  unfolding extract_body_ctx_def extract_fault_def extract_done_def
  by (rule for_each_faulting)
     (simp add: case_prod_beta bind_m_def emit_def raise_m_def context_log_info_def yield_def
        extract_step_def extract_message_def split: option.splits)

lemma first_some_None:
  "first_some (map fault xs) = None \<Longrightarrow> takeWhile (\<lambda>x. fault x = None) xs = xs"
proof (induction xs)
  case Nil
  show ?case by simp
next
  case (Cons x xs)
  then show ?case by (cases "fault x") simp_all
qed

lemma extract_done_all:
  "extract_fault ctx = None \<Longrightarrow> concat (map extract_step (extract_done ctx)) = extract_events"
  by (simp add: extract_fault_def extract_done_def extract_events_def first_some_None)

lemma extract_ctx_info_raises:
  "extract_fault ctx_info_raises = Some (Exn True ''OSError'' ''[Errno 28] No space left on device'')"
  "extract_done ctx_info_raises = []"
  by (simp_all add: extract_fault_def extract_done_def ctx_info_raises_def files_to_load_def)

lemma extract_fault_quiet: "extract_fault ctx_quiet = None"
  by (simp add: extract_fault_def ctx_quiet_def files_to_load_def)

text \<open>
  C10, as the spec words it: nothing in the body of the extract op can raise, so its
  \<^verbatim>\<open>except\<close> clause is never executed and every run emits the 22 outputs. The
  body calls \<^verbatim>\<open>context.log.info\<close>: in a context where that call raises
  \<open>OSError\<close>, the op ends with the exception, yields nothing, and the one line in the
  trace is the error line that only the \<^verbatim>\<open>except\<close> clause writes.
\<close>

theorem extract_except_clause_reached_counterexample:
  "(case extract_dim_product_category_ctx ctx_info_raises world_empty of
      (r, s') \<Rightarrow>
        r = Inl (Exn True ''OSError'' ''[Errno 28] No space left on device'') \<and>
        yields (trace s') = [] \<and>
        trace s' =
          [LogError (''Erreur lors de l'' @ [CHR 0x27] @ ''extraction des donn'' @ [CHR 0xE9]
             @ ''es : [Errno 28] No space left on device'')])"
proof -
  have body: "extract_body_ctx ctx_info_raises world_empty =
      (Inl (Exn True ''OSError'' ''[Errno 28] No space left on device''), world_empty)"
    by (simp add: extract_body_ctx_run extract_ctx_info_raises)
  have logger: "error_fault ctx_info_raises msg = None" for msg
    by (simp add: ctx_info_raises_def)
  have "extract_dim_product_category_ctx ctx_info_raises world_empty =
      (Inl (Exn True ''OSError'' ''[Errno 28] No space left on device''),
       world_empty\<lparr>trace := trace world_empty @
          [LogError (''Erreur lors de l'' @ [CHR 0x27] @ ''extraction des donn'' @ [CHR 0xE9]
             @ ''es : [Errno 28] No space left on device'')]\<rparr>)"
    by (simp add: extract_dim_product_category_ctx_def try_except_Exception_def body logger
          bind_m_def context_log_error_def emit_def raise_m_def extract_error_message_def)
  then show ?thesis
    by (simp add: world_empty_def)
qed

text \<open>
  C10, amended: the error branch of the extract op is unreachable in every run in which
  \<^verbatim>\<open>context.log.info\<close> returns normally. The body of the \<^verbatim>\<open>try\<close> only
  builds a constant list of string pairs, logs and yields them, and of these only the
  logging call can raise: the body returns normally exactly when none of the eleven
  logging calls raises, and then the op ends as its body does, no error line is
  written, and the 22 outputs are emitted, each pair under its names and in order.
\<close>

theorem extract_except_clause_unreachable_when_logger_returns:
  "(fst (extract_body_ctx ctx s) = Inr ()) = (extract_fault ctx = None) \<and>
   (extract_fault ctx = None \<longrightarrow>
      extract_dim_product_category_ctx ctx s = extract_body_ctx ctx s \<and>
      error_logs (new_events s (snd (extract_dim_product_category_ctx ctx s))) = [] \<and>
      (let ys = yields (new_events s (snd (extract_dim_product_category_ctx ctx s))) in
         length ys = 22 \<and>
         map output_name ys =
           [''file_path_1'', ''table_name_1'', ''file_path_2'', ''table_name_2'',
            ''file_path_3'', ''table_name_3'', ''file_path_4'', ''table_name_4'',
            ''file_path_5'', ''table_name_5'', ''file_path_6'', ''table_name_6'',
            ''file_path_7'', ''table_name_7'', ''file_path_8'', ''table_name_8'',
            ''file_path_9'', ''table_name_9'', ''file_path_10'', ''table_name_10'',
            ''file_path_11'', ''table_name_11''] \<and>
         map out_value ys =
           concat (map (\<lambda>(file_path, table_name). [file_path, table_name]) files_to_load)))"
proof (intro conjI impI)
  show "(fst (extract_body_ctx ctx s) = Inr ()) = (extract_fault ctx = None)"
    by (simp add: extract_body_ctx_run split: option.splits)
next
  assume quiet: "extract_fault ctx = None"
  have run: "extract_body_ctx ctx s = (Inr (), s\<lparr>trace := trace s @ extract_events\<rparr>)"
    by (simp add: extract_body_ctx_run quiet extract_done_all)
  then have op: "extract_dim_product_category_ctx ctx s =
      (Inr (), s\<lparr>trace := trace s @ extract_events\<rparr>)"
    by (simp add: extract_dim_product_category_ctx_def try_except_Exception_def)
  show "extract_dim_product_category_ctx ctx s = extract_body_ctx ctx s"
    by (simp add: run op)
  show "error_logs (new_events s (snd (extract_dim_product_category_ctx ctx s))) = []"
    by (simp add: op new_events_def extract_events_no_error)
  have names: "map output_name (yields extract_events) =
           [''file_path_1'', ''table_name_1'', ''file_path_2'', ''table_name_2'',
            ''file_path_3'', ''table_name_3'', ''file_path_4'', ''table_name_4'',
            ''file_path_5'', ''table_name_5'', ''file_path_6'', ''table_name_6'',
            ''file_path_7'', ''table_name_7'', ''file_path_8'', ''table_name_8'',
            ''file_path_9'', ''table_name_9'', ''file_path_10'', ''table_name_10'',
            ''file_path_11'', ''table_name_11'']"
    by (simp add: extract_events_names extract_out_def)
  show "let ys = yields (new_events s (snd (extract_dim_product_category_ctx ctx s))) in
         length ys = 22 \<and>
         map output_name ys =
           [''file_path_1'', ''table_name_1'', ''file_path_2'', ''table_name_2'',
            ''file_path_3'', ''table_name_3'', ''file_path_4'', ''table_name_4'',
            ''file_path_5'', ''table_name_5'', ''file_path_6'', ''table_name_6'',
            ''file_path_7'', ''table_name_7'', ''file_path_8'', ''table_name_8'',
            ''file_path_9'', ''table_name_9'', ''file_path_10'', ''table_name_10'',
            ''file_path_11'', ''table_name_11''] \<and>
         map out_value ys =
           concat (map (\<lambda>(file_path, table_name). [file_path, table_name]) files_to_load)"
    using names
    by (simp add: op new_events_def Let_def extract_events_values length_yields_extract_events)
qed

theorem extract_except_clause_unreachable_when_logger_returns_witness:
  "extract_fault ctx_quiet = None \<and>
   fst (extract_dim_product_category_ctx ctx_quiet world_empty) = Inr () \<and>
   error_logs (new_events world_empty
     (snd (extract_dim_product_category_ctx ctx_quiet world_empty))) = [] \<and>
   length (yields (new_events world_empty
     (snd (extract_dim_product_category_ctx ctx_quiet world_empty)))) = 22"
proof -
  note inst = extract_except_clause_unreachable_when_logger_returns [of ctx_quiet world_empty]
  have body: "fst (extract_body_ctx ctx_quiet world_empty) = Inr ()"
    using inst extract_fault_quiet by blast
  have rest: "error_logs (new_events world_empty
        (snd (extract_dim_product_category_ctx ctx_quiet world_empty))) = [] \<and>
      length (yields (new_events world_empty
        (snd (extract_dim_product_category_ctx ctx_quiet world_empty)))) = 22"
    using inst extract_fault_quiet unfolding Let_def by blast
  have same: "extract_dim_product_category_ctx ctx_quiet world_empty =
      extract_body_ctx ctx_quiet world_empty"
    using inst extract_fault_quiet by blast
  show ?thesis
    using body rest extract_fault_quiet by (simp add: same)
qed

text \<open>
  The boundary of an op: what \<^verbatim>\<open>try\<close> with the handler of the two ops makes of
  the outcome of a body.
\<close>

lemma boundary_outcome:
  "try_except_Exception body (\<lambda>e. bind_m (context_log_error ctx (msg e)) (\<lambda>_. raise_m e)) s =
     (case body s of
        (Inr v, sb) \<Rightarrow> (Inr v, sb)
      | (Inl e, sb) \<Rightarrow>
          if is_Exception e
          then (case error_fault ctx (msg e) of
                  None \<Rightarrow> (Inl e, sb\<lparr>trace := trace sb @ [LogError (msg e)]\<rparr>)
                | Some e' \<Rightarrow> (Inl e', sb))
          else (Inl e, sb))"
  by (simp add: try_except_Exception_def bind_m_def context_log_error_def emit_def raise_m_def
        split: prod.splits sum.splits option.splits)

lemma load_body_ctx_outcome:
  "fst (load_body_ctx ctx env file_path table_name s) =
     (case load_fault ctx env file_path table_name of None \<Rightarrow> Inr () | Some e \<Rightarrow> Inl e)"
  by (simp add: load_body_ctx_def context_log_info_def lib_defs load_fault_def
        split: option.splits sum.splits)

lemma load_ctx_outcome:
  "load_dim_product_category_ctx ctx env file_path table_name s =
     (case load_fault ctx env file_path table_name of
        None \<Rightarrow> load_body_ctx ctx env file_path table_name s
      | Some e \<Rightarrow>
          if is_Exception e
          then (case error_fault ctx (load_error_message e) of
                  None \<Rightarrow>
                    (Inl e, (snd (load_body_ctx ctx env file_path table_name s))
                       \<lparr>trace := trace (snd (load_body_ctx ctx env file_path table_name s)) @
                          [LogError (load_error_message e)]\<rparr>)
                | Some e' \<Rightarrow> (Inl e', snd (load_body_ctx ctx env file_path table_name s)))
          else (Inl e, snd (load_body_ctx ctx env file_path table_name s)))"
proof (cases "load_body_ctx ctx env file_path table_name s")
  case (Pair rb sb)
  then have "rb =
      (case load_fault ctx env file_path table_name of None \<Rightarrow> Inr () | Some e \<Rightarrow> Inl e)"
    using load_body_ctx_outcome [of ctx env file_path table_name s] by simp
  then show ?thesis
    using Pair
    by (simp add: load_dim_product_category_ctx_def boundary_outcome split: option.splits)
qed

lemma extract_ctx_outcome:
  "extract_dim_product_category_ctx ctx s =
     (case extract_fault ctx of
        None \<Rightarrow> extract_body_ctx ctx s
      | Some e \<Rightarrow>
          if is_Exception e
          then (case error_fault ctx (extract_error_message e) of
                  None \<Rightarrow>
                    (Inl e, (snd (extract_body_ctx ctx s))
                       \<lparr>trace := trace (snd (extract_body_ctx ctx s)) @
                          [LogError (extract_error_message e)]\<rparr>)
                | Some e' \<Rightarrow> (Inl e', snd (extract_body_ctx ctx s)))
          else (Inl e, snd (extract_body_ctx ctx s)))"
proof (cases "extract_body_ctx ctx s")
  case (Pair rb sb)
  then have "rb = (case extract_fault ctx of None \<Rightarrow> Inr () | Some e \<Rightarrow> Inl e)"
    using extract_body_ctx_run [of ctx s] by simp
  then show ?thesis
    using Pair
    by (simp add: extract_dim_product_category_ctx_def boundary_outcome split: option.splits)
qed

text \<open>The library calls of a load in a context, on every path.\<close>

lemma load_body_ctx_calls_made:
  "calls (new_events s (snd (load_body_ctx ctx env file_path table_name s))) =
     (case create_engine_fault env connection_string of
        Some e \<Rightarrow> [CreateEngine connection_string]
      | None \<Rightarrow>
     (case connect_fault env connection_string of
        Some e \<Rightarrow> [CreateEngine connection_string, EngineConnect connection_string]
      | None \<Rightarrow>
          [CreateEngine connection_string, EngineConnect connection_string,
           ReadCsv file_path ''utf-8-sig''] @
     (case read_csv_result env file_path ''utf-8-sig'' of
        Inl e \<Rightarrow> []
      | Inr df \<Rightarrow>
          ToSql df table_name connection_string Replace False #
     (case to_sql_fault env table_name of
        Some e \<Rightarrow> []
      | None \<Rightarrow>
     (case info_fault ctx (load_done_message table_name) of
        Some e \<Rightarrow> []
      | None \<Rightarrow> [ConnClose (length (conns s))])))))"
  by (simp add: load_body_ctx_def context_log_info_def lib_defs new_events_def
        split: option.splits sum.splits)

lemma calls_append: "calls (xs @ ys) = calls xs @ calls ys"
  by (induction xs rule: calls.induct) simp_all

lemma load_body_ctx_trace_grows:
  "\<exists>evs. trace (snd (load_body_ctx ctx env file_path table_name s)) = trace s @ evs"
  by (simp add: load_body_ctx_def context_log_info_def lib_defs
        split: option.splits sum.splits)

lemma load_ctx_calls_made:
  "calls (new_events s (snd (load_dim_product_category_ctx ctx env file_path table_name s))) =
   calls (new_events s (snd (load_body_ctx ctx env file_path table_name s)))"
proof -
  obtain evs where grows:
      "trace (snd (load_body_ctx ctx env file_path table_name s)) = trace s @ evs"
    using load_body_ctx_trace_grows by blast
  show ?thesis
    by (simp add: load_ctx_outcome new_events_def grows calls_append
          split: option.splits)
qed

lemma load_ctx_calls_once:
  "distinct (map call_name (calls (new_events s
     (snd (load_dim_product_category_ctx ctx env file_path table_name s)))))"
  by (auto simp: load_ctx_calls_made load_body_ctx_calls_made split: option.splits sum.splits)

text \<open>
  C6, as the spec words it: every exception raised in the body of an op is caught at
  the boundary, logged, and raised again unchanged. A \<open>KeyboardInterrupt\<close> raised
  inside \<^verbatim>\<open>read_csv\<close> is no instance of \<open>Exception\<close>: the op ends with it and no
  error line is logged. And when the file is missing and \<^verbatim>\<open>context.log.error\<close>
  raises in its turn, the op ends with the logger's \<open>OSError\<close>, not with the
  \<open>FileNotFoundError\<close> of the body, and no error line is logged.
\<close>

theorem load_exception_not_logged_counterexample:
  "(case load_dim_product_category_ctx ctx_quiet env_interrupted ''calcule.csv'' ''calcule''
           world_empty of
      (r, s') \<Rightarrow> r = Inl (Exn False ''KeyboardInterrupt'' []) \<and> error_logs (trace s') = []) \<and>
   fst (load_body_ctx ctx_error_raises env_missing_file ''calcule.csv'' ''calcule'' world_empty) =
     Inl (Exn True ''FileNotFoundError'' ''[Errno 2] No such file or directory: calcule.csv'') \<and>
   (case load_dim_product_category_ctx ctx_error_raises env_missing_file ''calcule.csv''
           ''calcule'' world_empty of
      (r, s') \<Rightarrow>
        r = Inl (Exn True ''OSError'' ''[Errno 28] No space left on device'') \<and>
        error_logs (trace s') = [])"
proof -
  have interrupted: "load_body_ctx ctx_quiet env_interrupted ''calcule.csv'' ''calcule''
        world_empty =
      (Inl (Exn False ''KeyboardInterrupt'' []),
       world_empty\<lparr>conns := [True],
         trace := [Call (CreateEngine connection_string), Call (EngineConnect connection_string),
                   Call (ReadCsv ''calcule.csv'' ''utf-8-sig'')]\<rparr>)"
    by (simp add: load_body_ctx_def lib_defs env_interrupted_def env_ok_def world_empty_def)
  have missing: "load_body_ctx ctx_error_raises env_missing_file ''calcule.csv'' ''calcule''
        world_empty =
      (Inl (Exn True ''FileNotFoundError'' ''[Errno 2] No such file or directory: calcule.csv''),
       world_empty\<lparr>conns := [True],
         trace := [Call (CreateEngine connection_string), Call (EngineConnect connection_string),
                   Call (ReadCsv ''calcule.csv'' ''utf-8-sig'')]\<rparr>)"
    by (simp add: load_body_ctx_def lib_defs env_missing_file_def env_ok_def world_empty_def)
  have logger: "error_fault ctx_error_raises msg =
      Some (Exn True ''OSError'' ''[Errno 28] No space left on device'')" for msg
    by (simp add: ctx_error_raises_def)
  show ?thesis
    by (simp add: load_dim_product_category_ctx_def boundary_outcome interrupted missing logger)
qed

text \<open>
  C6, amended: in both ops an exception raised in the body that is an instance of
  \<open>Exception\<close> is caught at the boundary and passed to \<^verbatim>\<open>context.log.error\<close>,
  which writes one error line after everything the body did, and is then raised again
  unchanged; an exception that is no instance of \<open>Exception\<close> leaves the op unchanged
  and unlogged, and an exception raised by the error-logging call itself ends the op in
  place of the original. The op never swallows an error (it ends with an exception
  whenever a call of its body raises, and returns normally only when none does) and
  never retries (the body runs once: the load calls no library routine twice, and the
  extract makes each pass of its loop at most once, up to the pass that raised).
\<close>

theorem ops_log_and_reraise_Exception_instances:
  "fst (load_body_ctx ctx env file_path table_name s) =
     (case load_fault ctx env file_path table_name of None \<Rightarrow> Inr () | Some e \<Rightarrow> Inl e) \<and>
   load_dim_product_category_ctx ctx env file_path table_name s =
     (case load_fault ctx env file_path table_name of
        None \<Rightarrow> load_body_ctx ctx env file_path table_name s
      | Some e \<Rightarrow>
          if is_Exception e
          then (case error_fault ctx (load_error_message e) of
                  None \<Rightarrow>
                    (Inl e, (snd (load_body_ctx ctx env file_path table_name s))
                       \<lparr>trace := trace (snd (load_body_ctx ctx env file_path table_name s)) @
                          [LogError (load_error_message e)]\<rparr>)
                | Some e' \<Rightarrow> (Inl e', snd (load_body_ctx ctx env file_path table_name s)))
          else (Inl e, snd (load_body_ctx ctx env file_path table_name s))) \<and>
   distinct (map call_name (calls (new_events s
     (snd (load_dim_product_category_ctx ctx env file_path table_name s))))) \<and>
   extract_body_ctx ctx s =
     ((case extract_fault ctx of None \<Rightarrow> Inr () | Some e \<Rightarrow> Inl e),
      s\<lparr>trace := trace s @ concat (map extract_step (extract_done ctx))\<rparr>) \<and>
   extract_dim_product_category_ctx ctx s =
     (case extract_fault ctx of
        None \<Rightarrow> extract_body_ctx ctx s
      | Some e \<Rightarrow>
          if is_Exception e
          then (case error_fault ctx (extract_error_message e) of
                  None \<Rightarrow>
                    (Inl e, (snd (extract_body_ctx ctx s))
                       \<lparr>trace := trace (snd (extract_body_ctx ctx s)) @
                          [LogError (extract_error_message e)]\<rparr>)
                | Some e' \<Rightarrow> (Inl e', snd (extract_body_ctx ctx s)))
          else (Inl e, snd (extract_body_ctx ctx s)))"
  using load_body_ctx_outcome [of ctx env file_path table_name s]
    load_ctx_outcome [of ctx env file_path table_name s]
    load_ctx_calls_once [of s ctx env file_path table_name]
    extract_body_ctx_run [of ctx s]
    extract_ctx_outcome [of ctx s]
  by blast

theorem ops_log_and_reraise_Exception_instances_witness:
  "extract_fault ctx_info_raises =
     Some (Exn True ''OSError'' ''[Errno 28] No space left on device'') \<and>
   extract_dim_product_category_ctx ctx_info_raises world_empty =
     (Inl (Exn True ''OSError'' ''[Errno 28] No space left on device''),
      world_empty\<lparr>trace :=
        [LogError (''Erreur lors de l'' @ [CHR 0x27] @ ''extraction des donn'' @ [CHR 0xE9]
           @ ''es : [Errno 28] No space left on device'')]\<rparr>)"
proof -
  have quiet_error: "error_fault ctx_info_raises msg = None" for msg
    by (simp add: ctx_info_raises_def)
  have start: "trace world_empty = []"
    by (simp add: world_empty_def)
  have "extract_dim_product_category_ctx ctx_info_raises world_empty =
     (Inl (Exn True ''OSError'' ''[Errno 28] No space left on device''),
      world_empty\<lparr>trace :=
        [LogError (extract_error_message
           (Exn True ''OSError'' ''[Errno 28] No space left on device''))]\<rparr>)"
    using ops_log_and_reraise_Exception_instances [of ctx_info_raises env_ok "''calcule.csv''"
        "''calcule''" world_empty]
    by (simp add: extract_ctx_info_raises quiet_error start)
  then show ?thesis
    by (simp add: extract_ctx_info_raises extract_error_message_def)
qed

section \<open>The trigger\<close>

text \<open>
  C7: the schedule triggers the job \<open>etl\<close> with the cron expression \<open>0 10 * * *\<close>,
  which fires at minute 0 of hour 10 of every day, whatever the day, month and weekday,
  in the one execution timezone the definition names.
\<close>

theorem etl_job_schedule_fires_daily_at_ten:
  "cron_schedule etl_job_schedule = ''0 10 * * *'' \<and>
   job etl_job_schedule = etl \<and>
   execution_timezone etl_job_schedule = Some ''US/Central'' \<and>
   (\<forall>t. fires etl_job_schedule t = (tick_minute t = 0 \<and> tick_hour t = 10))"
  by (simp add: etl_job_schedule_def fires_def cron_matches_def parse_field_def parse_nat_def
        digit_value_def)

end
